theory Spec2Isabelle
  imports Main
begin

section \<open>Storage volumes and pool resolution of LXD, embedded in HOL\<close>

text \<open>
  The development follows two Go files: \<^verbatim>\<open>lxd/storage/drivers/volume.go\<close> (the
  \<^verbatim>\<open>Volume\<close> value, its mount-scoped task execution, mount paths and snapshots) and the
  pool resolver of package \<^verbatim>\<open>storage\<close> (\<^verbatim>\<open>volIDFuncMake\<close>, \<^verbatim>\<open>CreatePool\<close>,
  \<^verbatim>\<open>GetPoolByName\<close>, \<^verbatim>\<open>GetPoolByInstanceName\<close>).

  Go strings are byte strings and are modelled as \<^typ>\<open>string\<close>. The two string types
  \<^verbatim>\<open>VolumeType\<close> and \<^verbatim>\<open>ContentType\<close> stay strings, with the named constants of the source.
\<close>

subsection \<open>Errors, outcomes of calls and the world\<close>

text \<open>
  A Go \<^verbatim>\<open>error\<close> is a value. \<^verbatim>\<open>ErrNilValue\<close> and \<^verbatim>\<open>ErrNoSuchObject\<close> are the two sentinel
  errors the source names, \<open>Errorf\<close> is an error built by \<^verbatim>\<open>fmt.Errorf\<close> with its formatted
  message, and \<open>ExternalError\<close> is any error a collaborator (driver, catalog, operating
  system) produces. A function returning \<^verbatim>\<open>(T, error)\<close> returns \<open>error + T\<close>: the source
  tests \<^verbatim>\<open>err != nil\<close> before it reads the other value. A function returning only
  \<^verbatim>\<open>error\<close> returns \<open>error option\<close>, \<open>None\<close> being \<^verbatim>\<open>nil\<close>.
\<close>

datatype error = ErrNilValue | ErrNoSuchObject | Errorf string | ExternalError string

text \<open>
  A call of Go code that is not in the two files (a driver method, the task, the operating
  system, the catalog) ends in one of three ways: it returns a value, it panics, or it
  never returns.
\<close>

datatype 'a outcome = Returns 'a | Panics string | Hangs

type_synonym VolumeType = string
type_synonym ContentType = string

definition VolumeTypeImage :: VolumeType where "VolumeTypeImage = ''images''"
definition VolumeTypeCustom :: VolumeType where "VolumeTypeCustom = ''custom''"
definition VolumeTypeContainer :: VolumeType where "VolumeTypeContainer = ''containers''"
definition VolumeTypeVM :: VolumeType where "VolumeTypeVM = ''virtual-machines''"

definition ContentTypeFS :: ContentType where "ContentTypeFS = ''fs''"
definition ContentTypeBlock :: ContentType where "ContentTypeBlock = ''block''"

text \<open>An \<^verbatim>\<open>*operations.Operation\<close> is an opaque token that is only passed on; \<open>None\<close> is \<^verbatim>\<open>nil\<close>.\<close>

datatype Operation = Operation nat

text \<open>
  Every call that leaves the two files is recorded, in order, with its arguments. A Go map
  is \<open>string \<rightharpoonup> string\<close>.
\<close>

datatype call =
    CallLock string
  | CallUnlock string
  | CallMountVolume VolumeType string
  | CallMountVolumeSnapshot VolumeType string string
  | CallUnmountVolume VolumeType string
  | CallUnmountVolumeSnapshot VolumeType string string
  | CallVolumeSnapshots VolumeType string
  | CallTask string
  | CallMkdirAll string nat
  | CallChmod string nat
  | CallContainerPool string string
  | CallStoragePoolGet string
  | CallStoragePoolNodeVolumeGetTypeByProject string string int int
  | CallLoad string string "(string \<rightharpoonup> string) option"
  | CallCreate string

text \<open>
  The world of one caller: the lock identifiers that are held in the process-wide lock
  registry, the record of calls made so far, the global variable \<^verbatim>\<open>MockBackend\<close> of package
  \<^verbatim>\<open>storage\<close>, and the state \<open>ext\<close> of everything outside (disks, mount tables, the catalog),
  which only the collaborators read and change.
\<close>

record 's world =
  held :: "string set"
  calls :: "call list"
  MockBackend :: bool
  ext :: 's

type_synonym ('s, 'a) action = "'s world \<Rightarrow> 'a outcome \<times> 's world"

text \<open>Sequencing of Go statements: the rest runs only when the call before it returned.\<close>

definition andThen :: "('s, 'a) action \<Rightarrow> ('a \<Rightarrow> ('s, 'b) action) \<Rightarrow> ('s, 'b) action" where
  "andThen m f w =
     (case m w of
        (Returns a, w') \<Rightarrow> f a w'
      | (Panics p, w') \<Rightarrow> (Panics p, w')
      | (Hangs, w') \<Rightarrow> (Hangs, w'))"

definition return :: "'a \<Rightarrow> ('s, 'a) action" where
  "return a w = (Returns a, w)"

text \<open>
  A call of a collaborator \<open>f\<close>: the call is recorded when it is made, \<open>f\<close> acts on the outside
  state, and its outcome is the outcome of the call.
\<close>

definition invoke :: "call \<Rightarrow> ('s \<Rightarrow> 'a outcome \<times> 's) \<Rightarrow> ('s, 'a) action" where
  "invoke c f w =
     (case f (ext w) of (out, s') \<Rightarrow> (out, w\<lparr>calls := calls w @ [c], ext := s'\<rparr>))"

text \<open>
  Go's \<^verbatim>\<open>defer\<close>: the deferred functions run, last registered first, when the body of the
  function returns or panics; a deferred function that panics replaces the outcome; nothing
  runs after a body that never returns.
\<close>

fun run_deferred :: "('s, unit) action list \<Rightarrow> 'a outcome \<times> 's world \<Rightarrow> 'a outcome \<times> 's world" where
  "run_deferred [] r = r"
| "run_deferred (d # ds) (out, w) =
     (case out of
        Hangs \<Rightarrow> (Hangs, w)
      | _ \<Rightarrow>
        (case d w of
           (Returns _, w') \<Rightarrow> run_deferred ds (out, w')
         | (Panics p, w') \<Rightarrow> run_deferred ds (Panics p, w')
         | (Hangs, w') \<Rightarrow> (Hangs, w')))"

definition with_deferred :: "('s, unit) action list \<Rightarrow> ('s, 'a) action \<Rightarrow> ('s, 'a) action" where
  "with_deferred ds body w = run_deferred ds (body w)"

subsection \<open>Collaborators of \<^verbatim>\<open>volume.go\<close> that are not in the two files\<close>

text \<open>
  Modelled from the spec: the lock registry behind \<^verbatim>\<open>lock(lockID)\<close>, "a process-wide
  named-mutex table keyed by arbitrary string identifiers". Acquiring an identifier that is
  held blocks the caller; in the run of one caller, where nobody else makes a step, that
  call never returns. The function returned by \<^verbatim>\<open>lock\<close> releases the identifier.
\<close>

definition unlock_of :: "string \<Rightarrow> ('s, unit) action" where
  "unlock_of lockID w =
     (Returns (), w\<lparr>held := held w - {lockID}, calls := calls w @ [CallUnlock lockID]\<rparr>)"

definition lock :: "string \<Rightarrow> ('s, ('s, unit) action) action" where
  "lock lockID w =
     (if lockID \<in> held w then (Hangs, w)
      else (Returns (unlock_of lockID),
            w\<lparr>held := insert lockID (held w), calls := calls w @ [CallLock lockID]\<rparr>))"

text \<open>
  Modelled from the spec: the snapshot-name convention of package \<^verbatim>\<open>shared\<close> and of
  \<^verbatim>\<open>GetSnapshotVolumeName\<close>, "name for a snapshot volume always has the form
  <parent>/<snapshot-suffix>; IsSnapshot() is a pure predicate over name's shape". The
  parent is what stands before the first slash.
\<close>

definition shared_IsSnapshot :: "string \<Rightarrow> bool" where
  "shared_IsSnapshot n = (CHR ''/'' \<in> set n)"

definition GetSnapshotVolumeName :: "string \<Rightarrow> string \<Rightarrow> string" where
  "GetSnapshotVolumeName parentName snapshotName = parentName @ ''/'' @ snapshotName"

definition ContainerGetParentAndSnapshotName :: "string \<Rightarrow> string \<times> string \<times> bool" where
  "ContainerGetParentAndSnapshotName n =
     (if CHR ''/'' \<in> set n
      then (takeWhile (\<lambda>c. c \<noteq> CHR ''/'') n, tl (dropWhile (\<lambda>c. c \<noteq> CHR ''/'') n), True)
      else (n, [], False))"

text \<open>
  The \<^verbatim>\<open>Driver\<close> interface, as far as \<^verbatim>\<open>volume.go\<close> calls it. A Go result \<^verbatim>\<open>(bool, error)\<close> is
  \<open>error + bool\<close>.
\<close>

record 's Driver =
  MountVolume :: "VolumeType \<Rightarrow> string \<Rightarrow> Operation option \<Rightarrow> 's \<Rightarrow> (error + bool) outcome \<times> 's"
  MountVolumeSnapshot ::
    "VolumeType \<Rightarrow> string \<Rightarrow> string \<Rightarrow> Operation option \<Rightarrow> 's \<Rightarrow> (error + bool) outcome \<times> 's"
  UnmountVolume :: "VolumeType \<Rightarrow> string \<Rightarrow> Operation option \<Rightarrow> 's \<Rightarrow> (error + bool) outcome \<times> 's"
  UnmountVolumeSnapshot ::
    "VolumeType \<Rightarrow> string \<Rightarrow> string \<Rightarrow> Operation option \<Rightarrow> 's \<Rightarrow> (error + bool) outcome \<times> 's"
  VolumeSnapshots ::
    "VolumeType \<Rightarrow> string \<Rightarrow> Operation option \<Rightarrow> 's \<Rightarrow> (error + string list) outcome \<times> 's"

text \<open>
  The two functions of package \<^verbatim>\<open>os\<close> that \<^verbatim>\<open>CreateMountPath\<close> calls, with the path and the
  permission bits.
\<close>

record 's OS =
  MkdirAll :: "string \<Rightarrow> nat \<Rightarrow> 's \<Rightarrow> error option outcome \<times> 's"
  Chmod :: "string \<Rightarrow> nat \<Rightarrow> 's \<Rightarrow> error option outcome \<times> 's"

text \<open>The octal permission literals \<^verbatim>\<open>0711\<close> and \<^verbatim>\<open>0100\<close> of the source.\<close>

definition perm_0711 :: nat where "perm_0711 = 7 * 64 + 1 * 8 + 1"
definition perm_0100 :: nat where "perm_0100 = 1 * 64"

subsection \<open>\<^verbatim>\<open>volume.go\<close>\<close>

record 's Volume =
  name :: string
  pool :: string
  volType :: VolumeType
  contentType :: ContentType
  config :: "(string \<rightharpoonup> string) option"
  driver :: "'s Driver"

definition NewVolume ::
  "'s Driver \<Rightarrow> string \<Rightarrow> VolumeType \<Rightarrow> ContentType \<Rightarrow> string \<Rightarrow> (string \<rightharpoonup> string) option \<Rightarrow> 's Volume" where
  "NewVolume drv poolName vType cType volName volConfig =
     \<lparr>name = volName, pool = poolName, volType = vType, contentType = cType,
      config = volConfig, driver = drv\<rparr>"

definition IsSnapshot :: "'s Volume \<Rightarrow> bool" where
  "IsSnapshot v = shared_IsSnapshot (name v)"

definition NewSnapshot :: "'s Volume \<Rightarrow> string \<Rightarrow> error + 's Volume" where
  "NewSnapshot v snapshotName =
     (if IsSnapshot v then Inl (Errorf ''Cannot create a snapshot volume from a snapshot'')
      else (let fullSnapName = GetSnapshotVolumeName (name v) snapshotName
            in Inr (NewVolume (driver v) (pool v) (volType v) (contentType v) fullSnapName (config v))))"

text \<open>
  \<^verbatim>\<open>GetVolumeMountPath\<close> is not in the two files; it is the first argument of every function
  that needs a mount path.
\<close>

definition MountPath :: "(string \<Rightarrow> VolumeType \<Rightarrow> string \<Rightarrow> string) \<Rightarrow> 's Volume \<Rightarrow> string" where
  "MountPath GetVolumeMountPath v = GetVolumeMountPath (pool v) (volType v) (name v)"

definition CreateMountPath ::
  "(string \<Rightarrow> VolumeType \<Rightarrow> string \<Rightarrow> string) \<Rightarrow> 's OS \<Rightarrow> 's Volume \<Rightarrow> ('s, error option) action" where
  "CreateMountPath GetVolumeMountPath os v =
     (let volPath = MountPath GetVolumeMountPath v in
      andThen (invoke (CallMkdirAll volPath perm_0711) (MkdirAll os volPath perm_0711)) (\<lambda>err.
        if err \<noteq> None then return err
        else if volType v \<noteq> VolumeTypeCustom \<and> volType v \<noteq> VolumeTypeImage then
          andThen (invoke (CallChmod volPath perm_0100) (Chmod os volPath perm_0100)) (\<lambda>err.
            if err \<noteq> None then return err else return None)
        else return None))"

text \<open>The two lock identifiers \<^verbatim>\<open>MountTask\<close> formats with \<^verbatim>\<open>fmt.Sprintf\<close>.\<close>

definition mountLockID :: "'s Volume \<Rightarrow> string" where
  "mountLockID v = ''mount/'' @ volType v @ ''/'' @ name v"

definition umountLockID :: "'s Volume \<Rightarrow> string" where
  "umountLockID v = ''umount/'' @ volType v @ ''/'' @ name v"

definition MountTask ::
  "(string \<Rightarrow> VolumeType \<Rightarrow> string \<Rightarrow> string) \<Rightarrow> 's Volume \<Rightarrow>
   (string \<Rightarrow> Operation option \<Rightarrow> 's \<Rightarrow> error option outcome \<times> 's) \<Rightarrow> Operation option \<Rightarrow>
   ('s, error option) action" where
  "MountTask GetVolumeMountPath v task op =
     (case ContainerGetParentAndSnapshotName (name v) of (parentName, snapName, isSnap) \<Rightarrow>
      if isSnap then
        andThen (lock (mountLockID v)) (\<lambda>unlock.
        andThen (invoke (CallMountVolumeSnapshot (volType v) parentName snapName)
                   (MountVolumeSnapshot (driver v) (volType v) parentName snapName op)) (\<lambda>r.
          case r of
            Inl err \<Rightarrow> andThen unlock (\<lambda>_. return (Some err))
          | Inr ourMount \<Rightarrow>
              andThen unlock (\<lambda>_.
                with_deferred
                  (if ourMount then
                     [andThen (lock (umountLockID v)) (\<lambda>unlock.
                      andThen (invoke (CallUnmountVolumeSnapshot (volType v) parentName snapName)
                                 (UnmountVolumeSnapshot (driver v) (volType v) parentName snapName op)) (\<lambda>_.
                      unlock))]
                   else [])
                  (invoke (CallTask (MountPath GetVolumeMountPath v))
                     (task (MountPath GetVolumeMountPath v) op)))))
      else
        andThen (lock (mountLockID v)) (\<lambda>unlock.
        andThen (invoke (CallMountVolume (volType v) (name v))
                   (MountVolume (driver v) (volType v) (name v) op)) (\<lambda>r.
          case r of
            Inl err \<Rightarrow> andThen unlock (\<lambda>_. return (Some err))
          | Inr ourMount \<Rightarrow>
              andThen unlock (\<lambda>_.
                with_deferred
                  (if ourMount then
                     [andThen (lock (umountLockID v)) (\<lambda>unlock.
                      andThen (invoke (CallUnmountVolume (volType v) (name v))
                                 (UnmountVolume (driver v) (volType v) (name v) op)) (\<lambda>_.
                      unlock))]
                   else [])
                  (invoke (CallTask (MountPath GetVolumeMountPath v))
                     (task (MountPath GetVolumeMountPath v) op))))))"

text \<open>The loop of \<^verbatim>\<open>Snapshots\<close> over the snapshot names the driver returned.\<close>

fun Snapshots_loop :: "'s Volume \<Rightarrow> string list \<Rightarrow> 's Volume list \<Rightarrow> error + 's Volume list" where
  "Snapshots_loop v [] snapVols = Inr snapVols"
| "Snapshots_loop v (snapName # rest) snapVols =
     (case NewSnapshot v snapName of
        Inl err \<Rightarrow> Inl err
      | Inr snapshot \<Rightarrow> Snapshots_loop v rest (snapVols @ [snapshot]))"

definition Snapshots :: "'s Volume \<Rightarrow> Operation option \<Rightarrow> ('s, error + 's Volume list) action" where
  "Snapshots v op =
     (if IsSnapshot v then return (Inl (Errorf ''Volume is a snapshot''))
      else
        andThen (invoke (CallVolumeSnapshots (volType v) (name v))
                   (VolumeSnapshots (driver v) (volType v) (name v) op)) (\<lambda>r.
          case r of
            Inl err \<Rightarrow> return (Inl err)
          | Inr snapshots \<Rightarrow> return (Snapshots_loop v snapshots [])))"

subsection \<open>Collaborators of the pool resolver that are not in the two files\<close>

text \<open>
  \<^verbatim>\<open>strings.SplitN\<close> of the Go library for a count \<open>n \<ge> 0\<close> and a non-empty separator, the
  only way the resolver calls it: at most \<open>n\<close> pieces, the last one the unsplit rest.
  \<open>Index\<close> is \<^verbatim>\<open>strings.Index\<close>, the position of the first occurrence.
\<close>

fun Index :: "string \<Rightarrow> string \<Rightarrow> nat option" where
  "Index [] sep = (if sep = [] then Some 0 else None)"
| "Index (c # s) sep =
     (if take (length sep) (c # s) = sep then Some 0 else map_option Suc (Index s sep))"

fun SplitN :: "string \<Rightarrow> string \<Rightarrow> nat \<Rightarrow> string list" where
  "SplitN s sep 0 = []"
| "SplitN s sep (Suc 0) = [s]"
| "SplitN s sep (Suc (Suc n)) =
     (case Index s sep of
        None \<Rightarrow> [s]
      | Some m \<Rightarrow> take m s # SplitN (drop (m + length sep) s) sep (Suc n))"

text \<open>
  \<^verbatim>\<open>api.StoragePool\<close>: the three fields the resolver reads or writes. A nil map is \<open>None\<close>. The
  functions below take any extension of the record, which stands for the fields of the
  struct that the resolver never touches.
\<close>

record StoragePool =
  Name :: string
  Driver :: string
  Config :: "(string \<rightharpoonup> string) option"

text \<open>
  The catalog behind \<^verbatim>\<open>state.Cluster\<close>. \<^verbatim>\<open>StoragePoolNodeVolumeGetTypeByProject\<close> returns a
  second value that the resolver discards; it is left out.
\<close>

record ('s, 'z) Cluster =
  StoragePoolGet :: "string \<Rightarrow> 's \<Rightarrow> (error + int \<times> 'z StoragePool_scheme) outcome \<times> 's"
  ContainerPool :: "string \<Rightarrow> string \<Rightarrow> 's \<Rightarrow> (error + string) outcome \<times> 's"
  StoragePoolNodeVolumeGetTypeByProject ::
    "string \<Rightarrow> string \<Rightarrow> int \<Rightarrow> int \<Rightarrow> 's \<Rightarrow> (error + int) outcome \<times> 's"

text \<open>
  The two implementations of the \<^verbatim>\<open>Pool\<close> interface the resolver builds. A logger is the
  context it was given. The field \<^verbatim>\<open>state\<close> of both structs is the \<^verbatim>\<open>*state.State\<close> every
  function below already takes and is not repeated in the value.
\<close>

datatype 'd Pool =
    mockBackend (mock_name: string) (mock_logger: "string \<rightharpoonup> string")
  | lxdBackend (lxd_driver: 'd) (lxd_id: int) (lxd_name: string) (lxd_logger: "string \<rightharpoonup> string")

text \<open>
  The functions of the packages \<^verbatim>\<open>storage\<close> and \<^verbatim>\<open>drivers\<close> the resolver calls:
  \<^verbatim>\<open>VolumeTypeToDBType\<close>, \<^verbatim>\<open>drivers.Load\<close> (driver name, pool name, config, logger and the
  ID-resolution callback; the constant rule set \<^verbatim>\<open>validateVolumeCommonRules\<close> is left out)
  and the method \<^verbatim>\<open>create\<close> of \<^verbatim>\<open>lxdBackend\<close>, which receives the pointer to the descriptor
  and returns, with its error, the descriptor as it has left it.
\<close>

record ('s, 'd, 'z) pkg =
  VolumeTypeToDBType :: "VolumeType \<Rightarrow> error + int"
  Load ::
    "string \<Rightarrow> string \<Rightarrow> (string \<rightharpoonup> string) option \<Rightarrow> (string \<rightharpoonup> string) \<Rightarrow>
     (VolumeType \<Rightarrow> string \<Rightarrow> ('s, error + int) action) \<Rightarrow> 's \<Rightarrow> (error + 'd) outcome \<times> 's"
  create ::
    "'d Pool \<Rightarrow> 'z StoragePool_scheme \<Rightarrow> Operation option \<Rightarrow> 's \<Rightarrow>
     (error option \<times> 'z StoragePool_scheme) outcome \<times> 's"

subsection \<open>The pool resolver\<close>

text \<open>The apostrophe of the message \<^verbatim>\<open>volIDFuncMake\<close> formats.\<close>

definition apostrophe :: string where
  "apostrophe = [CHR 0x27]"

definition volIDFuncMake ::
  "('s, 'd, 'z) pkg \<Rightarrow> ('s, 'z) Cluster \<Rightarrow> int \<Rightarrow> VolumeType \<Rightarrow> string \<Rightarrow> ('s, error + int) action" where
  "volIDFuncMake pk state poolID vType volName =
     (case VolumeTypeToDBType pk vType of
        Inl err \<Rightarrow> return (Inl err)
      | Inr volTypeID \<Rightarrow>
         (let project = ''default'';
              (project, volName) =
                (if vType = VolumeTypeContainer \<or> vType = VolumeTypeVM then
                   (let volParts = SplitN volName ''_'' 2 in
                    if length volParts > 1 then (volParts ! 0, volParts ! 1)
                    else (project, volName))
                 else (project, volName))
          in andThen (invoke (CallStoragePoolNodeVolumeGetTypeByProject project volName volTypeID poolID)
                        (StoragePoolNodeVolumeGetTypeByProject state project volName volTypeID poolID)) (\<lambda>r.
               case r of
                 Inl err \<Rightarrow>
                   if err = ErrNoSuchObject then
                     return (Inl (Errorf (''Failed to get volume ID for project '' @ apostrophe @ project @
                       apostrophe @ '', volume '' @ apostrophe @ volName @ apostrophe @ '', type '' @
                       apostrophe @ vType @ apostrophe @ '': Volume doesn'' @ apostrophe @ ''t exist'')))
                   else return (Inl err)
               | Inr volID \<Rightarrow> return (Inr volID))))"

text \<open>
  \<^verbatim>\<open>CreatePool\<close> takes a pointer to the descriptor (\<open>None\<close> is \<^verbatim>\<open>nil\<close>) and writes through it;
  it returns, next to its result, the descriptor as the caller finds it afterwards.
\<close>

definition CreatePool ::
  "('s, 'd, 'z) pkg \<Rightarrow> ('s, 'z) Cluster \<Rightarrow> int \<Rightarrow> 'z StoragePool_scheme option \<Rightarrow> Operation option \<Rightarrow>
   ('s, (error + 'd Pool) \<times> 'z StoragePool_scheme option) action" where
  "CreatePool pk state poolID dbPool op w =
     (case dbPool of
        None \<Rightarrow> (Returns (Inl ErrNilValue, None), w)
      | Some d0 \<Rightarrow>
         (let d = (if Config d0 = None then d0\<lparr>Config := Some Map.empty\<rparr> else d0) in
          if MockBackend w then
            (Returns (Inr (mockBackend (Name d) [''driver'' \<mapsto> ''mock'', ''pool'' \<mapsto> Name d]),
                      Some d), w)
          else
            (let logger = [''driver'' \<mapsto> Driver d, ''pool'' \<mapsto> Name d] in
             andThen (invoke (CallLoad (Driver d) (Name d) (Config d))
                        (Load pk (Driver d) (Name d) (Config d) logger
                           (volIDFuncMake pk state poolID))) (\<lambda>r.
               case r of
                 Inl err \<Rightarrow> return (Inl err, Some d)
               | Inr drv \<Rightarrow>
                  (let pool = lxdBackend drv poolID (Name d) logger in
                   andThen (invoke (CallCreate (Name d)) (create pk pool d op)) (\<lambda>(err, d').
                     case err of
                       Some e \<Rightarrow> return (Inl e, Some d')
                     | None \<Rightarrow> return (Inr pool, Some d')))) w)))"

definition GetPoolByName ::
  "('s, 'd, 'z) pkg \<Rightarrow> ('s, 'z) Cluster \<Rightarrow> string \<Rightarrow> ('s, error + 'd Pool) action" where
  "GetPoolByName pk state nm w =
     (if MockBackend w then
        (Returns (Inr (mockBackend nm [''driver'' \<mapsto> ''mock'', ''pool'' \<mapsto> nm])), w)
      else
        andThen (invoke (CallStoragePoolGet nm) (StoragePoolGet state nm)) (\<lambda>r.
          case r of
            Inl err \<Rightarrow> return (Inl err)
          | Inr (poolID, dbPool0) \<Rightarrow>
             (let dbPool = (if Config dbPool0 = None then dbPool0\<lparr>Config := Some Map.empty\<rparr>
                            else dbPool0);
                  logger = [''driver'' \<mapsto> Driver dbPool, ''pool'' \<mapsto> Name dbPool] in
              andThen (invoke (CallLoad (Driver dbPool) (Name dbPool) (Config dbPool))
                         (Load pk (Driver dbPool) (Name dbPool) (Config dbPool) logger
                            (volIDFuncMake pk state poolID))) (\<lambda>r.
                case r of
                  Inl err \<Rightarrow> return (Inl err)
                | Inr drv \<Rightarrow> return (Inr (lxdBackend drv poolID (Name dbPool) logger))))) w)"

definition GetPoolByInstanceName ::
  "('s, 'd, 'z) pkg \<Rightarrow> ('s, 'z) Cluster \<Rightarrow> string \<Rightarrow> string \<Rightarrow> ('s, error + 'd Pool) action" where
  "GetPoolByInstanceName pk s projectName instanceName =
     andThen (invoke (CallContainerPool projectName instanceName)
                (ContainerPool s projectName instanceName)) (\<lambda>r.
       case r of
         Inl err \<Rightarrow> return (Inl err)
       | Inr poolName \<Rightarrow> GetPoolByName pk s poolName)"

subsection \<open>Vocabulary for the statements\<close>

text \<open>
  \<^verbatim>\<open>MountTask\<close> calls the snapshot methods of the driver for a snapshot volume and the plain
  ones otherwise. The four definitions below name, for a volume, the mount and the unmount
  method it calls and the record each call leaves.
\<close>

definition driver_mount :: "'s Volume \<Rightarrow> Operation option \<Rightarrow> 's \<Rightarrow> (error + bool) outcome \<times> 's" where
  "driver_mount v op =
     (case ContainerGetParentAndSnapshotName (name v) of (parentName, snapName, isSnap) \<Rightarrow>
        if isSnap then MountVolumeSnapshot (driver v) (volType v) parentName snapName op
        else MountVolume (driver v) (volType v) (name v) op)"

definition driver_unmount :: "'s Volume \<Rightarrow> Operation option \<Rightarrow> 's \<Rightarrow> (error + bool) outcome \<times> 's" where
  "driver_unmount v op =
     (case ContainerGetParentAndSnapshotName (name v) of (parentName, snapName, isSnap) \<Rightarrow>
        if isSnap then UnmountVolumeSnapshot (driver v) (volType v) parentName snapName op
        else UnmountVolume (driver v) (volType v) (name v) op)"

definition mount_call :: "'s Volume \<Rightarrow> call" where
  "mount_call v =
     (case ContainerGetParentAndSnapshotName (name v) of (parentName, snapName, isSnap) \<Rightarrow>
        if isSnap then CallMountVolumeSnapshot (volType v) parentName snapName
        else CallMountVolume (volType v) (name v))"

definition unmount_call :: "'s Volume \<Rightarrow> call" where
  "unmount_call v =
     (case ContainerGetParentAndSnapshotName (name v) of (parentName, snapName, isSnap) \<Rightarrow>
        if isSnap then CallUnmountVolumeSnapshot (volType v) parentName snapName
        else CallUnmountVolume (volType v) (name v))"

text \<open>The calls a run has added to the record of the world it started in.\<close>

definition new_calls :: "'s world \<Rightarrow> 'a outcome \<times> 's world \<Rightarrow> call list" where
  "new_calls w r = drop (length (calls w)) (calls (snd r))"

fun is_task_call :: "call \<Rightarrow> bool" where
  "is_task_call (CallTask _) = True"
| "is_task_call _ = False"

fun is_unmount_call :: "call \<Rightarrow> bool" where
  "is_unmount_call (CallUnmountVolume _ _) = True"
| "is_unmount_call (CallUnmountVolumeSnapshot _ _ _) = True"
| "is_unmount_call _ = False"

fun is_catalog_call :: "call \<Rightarrow> bool" where
  "is_catalog_call (CallContainerPool _ _) = True"
| "is_catalog_call (CallStoragePoolGet _) = True"
| "is_catalog_call (CallStoragePoolNodeVolumeGetTypeByProject _ _ _ _) = True"
| "is_catalog_call _ = False"


subsection \<open>Concrete collaborators\<close>

text \<open>
  A driver that counts the holders of its one volume, as the contract of the \<^verbatim>\<open>Driver\<close>
  interface asks: a mount reports \<open>True\<close> when it takes the count from zero, an unmount
  when it takes it back to zero, and an unmount of an unmounted volume fails.
\<close>

definition counting_mount :: "nat \<Rightarrow> (error + bool) outcome \<times> nat" where
  "counting_mount n = (Returns (Inr (n = 0)), Suc n)"

definition counting_unmount :: "nat \<Rightarrow> (error + bool) outcome \<times> nat" where
  "counting_unmount n =
     (if n = 0 then (Returns (Inl (ExternalError ''not mounted'')), 0)
      else (Returns (Inr (n = 1)), n - 1))"

definition counting_driver :: "nat Driver" where
  "counting_driver =
     \<lparr>MountVolume = (\<lambda>t n op. counting_mount),
      MountVolumeSnapshot = (\<lambda>t p s op. counting_mount),
      UnmountVolume = (\<lambda>t n op. counting_unmount),
      UnmountVolumeSnapshot = (\<lambda>t p s op. counting_unmount),
      VolumeSnapshots = (\<lambda>t n op c. (Returns (Inr [''snap0'', ''snap1'']), c))\<rparr>"

text \<open>A driver whose mounts fail, and one that mounts but whose unmounts fail.\<close>

definition failing_driver :: "nat Driver" where
  "failing_driver =
     counting_driver
       \<lparr>MountVolume := (\<lambda>t n op c. (Returns (Inl (ExternalError ''mount failed'')), c)),
        MountVolumeSnapshot := (\<lambda>t p s op c. (Returns (Inl (ExternalError ''mount failed'')), c))\<rparr>"

definition busy_driver :: "nat Driver" where
  "busy_driver =
     counting_driver
       \<lparr>UnmountVolume := (\<lambda>t n op c. (Returns (Inl (ExternalError ''device busy'')), c)),
        UnmountVolumeSnapshot := (\<lambda>t p s op c. (Returns (Inl (ExternalError ''device busy'')), c))\<rparr>"

definition example_volume :: "nat Volume" where
  "example_volume = NewVolume counting_driver ''pool0'' VolumeTypeContainer ContentTypeFS ''c1'' None"

definition example_snapshot :: "nat Volume" where
  "example_snapshot =
     NewVolume counting_driver ''pool0'' VolumeTypeContainer ContentTypeFS ''c1/snap0'' None"

definition example_path :: "string \<Rightarrow> VolumeType \<Rightarrow> string \<Rightarrow> string" where
  "example_path poolName vType volName = ''/pools/'' @ poolName @ ''/'' @ vType @ ''/'' @ volName"

definition ok_task :: "string \<Rightarrow> Operation option \<Rightarrow> nat \<Rightarrow> error option outcome \<times> nat" where
  "ok_task path op c = (Returns None, c)"

definition failing_task :: "string \<Rightarrow> Operation option \<Rightarrow> nat \<Rightarrow> error option outcome \<times> nat" where
  "failing_task path op c = (Returns (Some (ExternalError ''task failed'')), c)"

definition world0 :: "nat world" where
  "world0 = \<lparr>held = {}, calls = [], MockBackend = False, ext = 0\<rparr>"

text \<open>
  A small file system, a map from paths to permission bits: \<open>MkdirAll\<close> creates a missing
  path with the given bits, \<open>Chmod\<close> sets the bits of an existing path and fails on a
  missing one.
\<close>

definition map_os :: "(string \<rightharpoonup> nat) OS" where
  "map_os =
     \<lparr>MkdirAll = (\<lambda>p m fs. (Returns None, if p \<in> dom fs then fs else fs(p \<mapsto> m))),
      Chmod = (\<lambda>p m fs. if p \<in> dom fs then (Returns None, fs(p \<mapsto> m))
                         else (Returns (Some (ExternalError ''no such file or directory'')), fs))\<rparr>"

definition fs_world0 :: "(string \<rightharpoonup> nat) world" where
  "fs_world0 = \<lparr>held = {}, calls = [], MockBackend = False, ext = Map.empty\<rparr>"

definition fs_volume :: "VolumeType \<Rightarrow> (string \<rightharpoonup> nat) Volume" where
  "fs_volume vType =
     \<lparr>name = ''c1'', pool = ''pool0'', volType = vType, contentType = ContentTypeFS, config = None,
      driver = \<lparr>MountVolume = (\<lambda>t n op fs. (Returns (Inr True), fs)),
                MountVolumeSnapshot = (\<lambda>t p s op fs. (Returns (Inr True), fs)),
                UnmountVolume = (\<lambda>t n op fs. (Returns (Inr True), fs)),
                UnmountVolumeSnapshot = (\<lambda>t p s op fs. (Returns (Inr True), fs)),
                VolumeSnapshots = (\<lambda>t n op fs. (Returns (Inr []), fs))\<rparr>\<rparr>"

text \<open>
  A catalog that knows no pool, no instance and no volume, and package functions that load
  a driver named after the pool.
\<close>

definition empty_cluster :: "(nat, unit) Cluster" where
  "empty_cluster =
     \<lparr>StoragePoolGet = (\<lambda>n c. (Returns (Inl ErrNoSuchObject), c)),
      ContainerPool = (\<lambda>p i c. (Returns (Inl ErrNoSuchObject), c)),
      StoragePoolNodeVolumeGetTypeByProject = (\<lambda>p n t i c. (Returns (Inl ErrNoSuchObject), c))\<rparr>"

definition one_pool_cluster :: "(nat, unit) Cluster" where
  "one_pool_cluster =
     empty_cluster\<lparr>ContainerPool := (\<lambda>p i c. (Returns (Inr ''pool0''), c))\<rparr>"

definition example_pkg :: "(nat, string, unit) pkg" where
  "example_pkg =
     \<lparr>VolumeTypeToDBType = (\<lambda>t. if t = VolumeTypeContainer then Inr 0
                                else if t = VolumeTypeImage then Inr 1
                                else if t = VolumeTypeCustom then Inr 2
                                else if t = VolumeTypeVM then Inr 3
                                else Inl (Errorf ''Invalid storage volume type'')),
      Load = (\<lambda>driverName poolName cfg logger volIDFunc c. (Returns (Inr (driverName @ '':'' @ poolName)), c)),
      create = (\<lambda>p d op c. (Returns (None, d), c))\<rparr>"

definition example_descriptor :: StoragePool where
  "example_descriptor = \<lparr>Name = ''pool0'', Driver = ''dir'', Config = None\<rparr>"

definition mock_world :: "nat world" where
  "mock_world = \<lparr>held = {}, calls = [], MockBackend = True, ext = 0\<rparr>"

text \<open>
  The example volume on the two drivers above, and a world in which another caller holds
  the unmount lock of the example volume.
\<close>

definition failing_volume :: "nat Volume" where
  "failing_volume = example_volume\<lparr>driver := failing_driver\<rparr>"

definition busy_volume :: "nat Volume" where
  "busy_volume = example_volume\<lparr>driver := busy_driver\<rparr>"

definition contended_world :: "nat world" where
  "contended_world = world0\<lparr>held := {umountLockID example_volume}\<rparr>"

section \<open>Properties\<close>

subsection \<open>Snapshots of volumes\<close>

text \<open>
  Claim C8. On a volume for which \<open>IsSnapshot\<close> holds, \<open>NewSnapshot\<close> fails with the error
  "Cannot create a snapshot volume from a snapshot" and \<open>Snapshots\<close> fails with the error
  "Volume is a snapshot" (the invalid-operation errors of the spec). \<open>NewSnapshot\<close> has no
  access to the world, and \<open>Snapshots\<close> returns the world it was given: no driver call is
  made.
\<close>

theorem snapshot_of_snapshot_rejected:
  "IsSnapshot v \<Longrightarrow>
     NewSnapshot v snapshotName = Inl (Errorf ''Cannot create a snapshot volume from a snapshot'')
     \<and> Snapshots v op w = (Returns (Inl (Errorf ''Volume is a snapshot'')), w)"
  by (simp add: NewSnapshot_def Snapshots_def return_def)

theorem snapshot_of_snapshot_rejected_witness:
  "IsSnapshot example_snapshot
   \<and> NewSnapshot example_snapshot ''snap1'' = Inl (Errorf ''Cannot create a snapshot volume from a snapshot'')
   \<and> Snapshots example_snapshot None world0 = (Returns (Inl (Errorf ''Volume is a snapshot'')), world0)
   \<and> new_calls world0 (Snapshots example_snapshot None world0) = []"
proof -
  have h: "IsSnapshot example_snapshot"
    by (simp add: IsSnapshot_def shared_IsSnapshot_def example_snapshot_def NewVolume_def)
  show ?thesis
    using h snapshot_of_snapshot_rejected [OF h, of "''snap1''" None world0]
    by (simp add: new_calls_def)
qed

lemma shared_IsSnapshot_GetSnapshotVolumeName:
  "shared_IsSnapshot (GetSnapshotVolumeName parentName snapshotName)"
  by (simp add: shared_IsSnapshot_def GetSnapshotVolumeName_def)

text \<open>
  Claim C9. On a volume that is not a snapshot, \<open>NewSnapshot\<close> succeeds for every suffix.
  The name of the volume it returns is the parent name joined with the suffix by the
  snapshot-name convention (parent, slash, suffix); pool, volume type, content type, config
  and driver are those of the parent; and \<open>IsSnapshot\<close> holds of the returned volume.
\<close>

theorem NewSnapshot_of_volume:
  "\<not> IsSnapshot v \<Longrightarrow>
     (\<exists>snap. NewSnapshot v suffix = Inr snap
        \<and> name snap = GetSnapshotVolumeName (name v) suffix
        \<and> name snap = name v @ ''/'' @ suffix
        \<and> pool snap = pool v \<and> volType snap = volType v \<and> contentType snap = contentType v
        \<and> config snap = config v \<and> driver snap = driver v
        \<and> IsSnapshot snap)"
  by (simp add: NewSnapshot_def NewVolume_def IsSnapshot_def shared_IsSnapshot_GetSnapshotVolumeName)
    (simp add: GetSnapshotVolumeName_def)

theorem NewSnapshot_of_volume_witness:
  "\<not> IsSnapshot example_volume
   \<and> NewSnapshot example_volume ''snap0'' = Inr example_snapshot
   \<and> IsSnapshot example_snapshot"
proof -
  have h: "\<not> IsSnapshot example_volume"
    by (simp add: IsSnapshot_def shared_IsSnapshot_def example_volume_def NewVolume_def)
  from NewSnapshot_of_volume [OF h, of "''snap0''"]
  obtain snap where s: "NewSnapshot example_volume ''snap0'' = Inr snap" "IsSnapshot snap"
    by blast
  have "NewSnapshot example_volume ''snap0'' = Inr example_snapshot"
    by (simp add: NewSnapshot_def h example_volume_def example_snapshot_def NewVolume_def
        GetSnapshotVolumeName_def IsSnapshot_def shared_IsSnapshot_def)
  with s h show ?thesis by simp
qed

subsection \<open>Runs of \<open>MountTask\<close>\<close>

lemmas mount_vocabulary =
  driver_mount_def driver_unmount_def mount_call_def unmount_call_def

lemmas run_defs =
  andThen_def lock_def unlock_of_def invoke_def return_def with_deferred_def

lemmas example_defs =
  example_volume_def example_snapshot_def failing_volume_def busy_volume_def NewVolume_def
  counting_driver_def failing_driver_def busy_driver_def counting_mount_def counting_unmount_def
  example_path_def ok_task_def failing_task_def world0_def contended_world_def
  VolumeTypeContainer_def ContentTypeFS_def mountLockID_def umountLockID_def MountPath_def
  ContainerGetParentAndSnapshotName_def

lemma held_restored: "l \<notin> H \<Longrightarrow> insert l H - {l} = H"
  by auto

lemma is_unmount_call_simps [simp]:
  "is_unmount_call (unmount_call v)" "\<not> is_unmount_call (mount_call v)"
  "\<not> is_task_call (unmount_call v)" "\<not> is_task_call (mount_call v)"
  by (cases "ContainerGetParentAndSnapshotName (name v)"; simp add: mount_vocabulary)+

text \<open>The driver's mount call returns an error: the lock is released and the error returned.\<close>

lemma MountTask_mount_error:
  assumes "mountLockID v \<notin> held w"
    and "driver_mount v op (ext w) = (Returns (Inl e), s1)"
  shows "MountTask G v task op w =
           (Returns (Some e),
            w\<lparr>calls := calls w @ [CallLock (mountLockID v), mount_call v, CallUnlock (mountLockID v)],
              ext := s1\<rparr>)"
  using assms
  by (cases "ContainerGetParentAndSnapshotName (name v)")
    (simp add: MountTask_def mount_vocabulary run_defs held_restored split: if_splits)

text \<open>The mount call reports that the volume was mounted already: the task runs, nothing follows.\<close>

lemma MountTask_not_our_mount:
  assumes "mountLockID v \<notin> held w"
    and "driver_mount v op (ext w) = (Returns (Inr False), s1)"
    and "task (MountPath G v) op s1 = (tout, s2)"
  shows "MountTask G v task op w =
           (tout,
            w\<lparr>calls := calls w @ [CallLock (mountLockID v), mount_call v, CallUnlock (mountLockID v),
                                  CallTask (MountPath G v)],
              ext := s2\<rparr>)"
  using assms
  by (cases "ContainerGetParentAndSnapshotName (name v)")
    (simp add: MountTask_def mount_vocabulary run_defs held_restored split: if_splits)

text \<open>
  The mount call reports that it mounted the volume and the task returns or panics: the
  deferred function takes the unmount lock and calls the driver's unmount.
\<close>

lemma MountTask_our_mount:
  assumes "mountLockID v \<notin> held w" and "umountLockID v \<notin> held w"
    and "driver_mount v op (ext w) = (Returns (Inr True), s1)"
    and "task (MountPath G v) op s1 = (tout, s2)" and "tout \<noteq> Hangs"
    and "driver_unmount v op s2 = (uout, s3)"
  shows "MountTask G v task op w =
           (case uout of
              Returns _ \<Rightarrow>
                (tout,
                 w\<lparr>calls := calls w @ [CallLock (mountLockID v), mount_call v, CallUnlock (mountLockID v),
                                       CallTask (MountPath G v),
                                       CallLock (umountLockID v), unmount_call v, CallUnlock (umountLockID v)],
                   ext := s3\<rparr>)
            | Panics p \<Rightarrow>
                (Panics p,
                 w\<lparr>held := insert (umountLockID v) (held w),
                   calls := calls w @ [CallLock (mountLockID v), mount_call v, CallUnlock (mountLockID v),
                                       CallTask (MountPath G v),
                                       CallLock (umountLockID v), unmount_call v],
                   ext := s3\<rparr>)
            | Hangs \<Rightarrow>
                (Hangs,
                 w\<lparr>held := insert (umountLockID v) (held w),
                   calls := calls w @ [CallLock (mountLockID v), mount_call v, CallUnlock (mountLockID v),
                                       CallTask (MountPath G v),
                                       CallLock (umountLockID v), unmount_call v],
                   ext := s3\<rparr>))"
  using assms
  by (cases "ContainerGetParentAndSnapshotName (name v)"; cases tout; cases uout)
    (simp_all add: MountTask_def mount_vocabulary run_defs held_restored split: if_splits)

text \<open>The same run when another caller holds the unmount lock: the deferred function waits.\<close>

lemma MountTask_our_mount_blocked:
  assumes "mountLockID v \<notin> held w" and "umountLockID v \<in> held w"
    and "driver_mount v op (ext w) = (Returns (Inr True), s1)"
    and "task (MountPath G v) op s1 = (tout, s2)"
  shows "MountTask G v task op w =
           (Hangs,
            w\<lparr>calls := calls w @ [CallLock (mountLockID v), mount_call v, CallUnlock (mountLockID v),
                                  CallTask (MountPath G v)],
              ext := s2\<rparr>)"
  using assms
  by (cases "ContainerGetParentAndSnapshotName (name v)"; cases tout)
    (simp_all add: MountTask_def mount_vocabulary run_defs held_restored split: if_splits)

lemma MountTask_mount_lock_held:
  assumes "mountLockID v \<in> held w"
  shows "MountTask G v task op w = (Hangs, w)"
  using assms
  by (cases "ContainerGetParentAndSnapshotName (name v)")
    (simp add: MountTask_def run_defs split: if_splits)

lemma mount_umount_lock_ids_differ: "mountLockID v \<noteq> umountLockID v"
  by (simp add: mountLockID_def umountLockID_def)

text \<open>
  Claim C1. Take a run of \<open>MountTask\<close> in which the driver's mount (or mount-snapshot) call
  returns without error, reporting \<open>ourMount\<close>, and the task then leaves by returning (an
  error or none) or by panicking. The whole result of the run is fixed. When \<open>ourMount\<close> is
  false the outcome is the outcome of the task, the outside world is as the task left it
  and nothing is called after the task. When \<open>ourMount\<close> is true the deferred function runs
  after the task, whatever the task's outcome: it takes the unmount lock and calls the
  driver's unmount (or unmount-snapshot) on the state the task left; the outside world is
  then as the unmount call left it, and the outcome is the outcome of the task when the
  unmount call returns. While another caller holds the unmount lock the deferred function
  waits for it. With the unmount lock free, the run contains an unmount call exactly when
  \<open>ourMount\<close> is true, and that call comes after the task.
\<close>

theorem MountTask_compensates_iff_our_mount:
  assumes "mountLockID v \<notin> held w"
    and "driver_mount v op (ext w) = (Returns (Inr ourMount), s1)"
    and "task (MountPath G v) op s1 = (tout, s2)" and "tout \<noteq> Hangs"
    and "driver_unmount v op s2 = (uout, s3)"
  shows "MountTask G v task op w =
           (if \<not> ourMount then
              (tout,
               w\<lparr>calls := calls w @ [CallLock (mountLockID v), mount_call v, CallUnlock (mountLockID v),
                                     CallTask (MountPath G v)],
                 ext := s2\<rparr>)
            else if umountLockID v \<in> held w then
              (Hangs,
               w\<lparr>calls := calls w @ [CallLock (mountLockID v), mount_call v, CallUnlock (mountLockID v),
                                     CallTask (MountPath G v)],
                 ext := s2\<rparr>)
            else
              (case uout of
                 Returns _ \<Rightarrow>
                   (tout,
                    w\<lparr>calls := calls w @ [CallLock (mountLockID v), mount_call v,
                                          CallUnlock (mountLockID v), CallTask (MountPath G v),
                                          CallLock (umountLockID v), unmount_call v,
                                          CallUnlock (umountLockID v)],
                      ext := s3\<rparr>)
               | Panics p \<Rightarrow>
                   (Panics p,
                    w\<lparr>held := insert (umountLockID v) (held w),
                      calls := calls w @ [CallLock (mountLockID v), mount_call v,
                                          CallUnlock (mountLockID v), CallTask (MountPath G v),
                                          CallLock (umountLockID v), unmount_call v],
                      ext := s3\<rparr>)
               | Hangs \<Rightarrow>
                   (Hangs,
                    w\<lparr>held := insert (umountLockID v) (held w),
                      calls := calls w @ [CallLock (mountLockID v), mount_call v,
                                          CallUnlock (mountLockID v), CallTask (MountPath G v),
                                          CallLock (umountLockID v), unmount_call v],
                      ext := s3\<rparr>)))
         \<and> (umountLockID v \<notin> held w \<longrightarrow>
              (\<exists>after.
                 new_calls w (MountTask G v task op w) =
                   [CallLock (mountLockID v), mount_call v, CallUnlock (mountLockID v),
                    CallTask (MountPath G v)] @ after
                 \<and> (if ourMount
                    then take 2 after = [CallLock (umountLockID v), unmount_call v]
                         \<and> filter is_unmount_call after = [unmount_call v]
                    else after = [])
                 \<and> (filter is_unmount_call (new_calls w (MountTask G v task op w)) \<noteq> []) = ourMount)
              \<and> ext (snd (MountTask G v task op w)) = (if ourMount then s3 else s2)
              \<and> (\<forall>x. uout = Returns x \<longrightarrow>
                    fst (MountTask G v task op w) = tout
                    \<and> held (snd (MountTask G v task op w)) = held w))"
proof (cases ourMount)
  case False
  with assms have m: "driver_mount v op (ext w) = (Returns (Inr False), s1)"
    by simp
  show ?thesis
    using False MountTask_not_our_mount [where task = task and G = G, OF assms(1) m assms(3)]
    by (simp add: new_calls_def)
next
  case True
  with assms have m: "driver_mount v op (ext w) = (Returns (Inr True), s1)"
    by simp
  show ?thesis
  proof (cases "umountLockID v \<in> held w")
    case held: True
    show ?thesis
      using True held
        MountTask_our_mount_blocked [where task = task and G = G, OF assms(1) held m assms(3)]
      by simp
  next
    case free: False
    show ?thesis
      using True free
        MountTask_our_mount [where task = task and G = G, OF assms(1) free m assms(3,4,5)]
      by (cases uout) (simp_all add: new_calls_def)
  qed
qed

theorem MountTask_compensates_iff_our_mount_witness:
  "mountLockID example_volume \<notin> held world0
   \<and> driver_mount example_volume None (ext world0) = (Returns (Inr True), 1)
   \<and> failing_task (MountPath example_path example_volume) None 1
       = (Returns (Some (ExternalError ''task failed'')), 1)
   \<and> driver_unmount example_volume None 1 = (Returns (Inr True), 0)
   \<and> MountTask example_path example_volume failing_task None world0 =
       (Returns (Some (ExternalError ''task failed'')),
        \<lparr>held = {},
         calls = [CallLock ''mount/containers/c1'', CallMountVolume ''containers'' ''c1'',
                  CallUnlock ''mount/containers/c1'', CallTask ''/pools/pool0/containers/c1'',
                  CallLock ''umount/containers/c1'', CallUnmountVolume ''containers'' ''c1'',
                  CallUnlock ''umount/containers/c1''],
         MockBackend = False, ext = 0\<rparr>)
   \<and> driver_mount example_volume None (ext (world0\<lparr>ext := 1\<rparr>)) = (Returns (Inr False), 2)
   \<and> MountTask example_path example_volume failing_task None (world0\<lparr>ext := 1\<rparr>) =
       (Returns (Some (ExternalError ''task failed'')),
        \<lparr>held = {},
         calls = [CallLock ''mount/containers/c1'', CallMountVolume ''containers'' ''c1'',
                  CallUnlock ''mount/containers/c1'', CallTask ''/pools/pool0/containers/c1''],
         MockBackend = False, ext = 2\<rparr>)"
proof -
  have ids: "mountLockID example_volume = ''mount/containers/c1''"
    "umountLockID example_volume = ''umount/containers/c1''"
    "mount_call example_volume = CallMountVolume ''containers'' ''c1''"
    "unmount_call example_volume = CallUnmountVolume ''containers'' ''c1''"
    "MountPath example_path example_volume = ''/pools/pool0/containers/c1''"
    by (simp_all add: mount_vocabulary example_defs)
  have h1: "mountLockID example_volume \<notin> held world0"
    and h2: "umountLockID example_volume \<notin> held world0"
    by (simp_all add: world0_def)
  have h3: "driver_mount example_volume None (ext world0) = (Returns (Inr True), 1)"
    by (simp add: driver_mount_def example_defs)
  have h4: "failing_task (MountPath example_path example_volume) None 1
              = (Returns (Some (ExternalError ''task failed'')), 1)"
    by (simp add: failing_task_def)
  have h5: "Returns (Some (ExternalError ''task failed'')) \<noteq> Hangs"
    by simp
  have h6: "driver_unmount example_volume None 1 = (Returns (Inr True), 0)"
    by (simp add: driver_unmount_def example_defs)
  have k1: "mountLockID example_volume \<notin> held (world0\<lparr>ext := 1\<rparr>)"
    and k2: "umountLockID example_volume \<notin> held (world0\<lparr>ext := 1\<rparr>)"
    by (simp_all add: world0_def)
  have k3: "driver_mount example_volume None (ext (world0\<lparr>ext := 1\<rparr>)) = (Returns (Inr False), 2)"
    by (simp add: driver_mount_def example_defs)
  have k4: "failing_task (MountPath example_path example_volume) None 2
              = (Returns (Some (ExternalError ''task failed'')), 2)"
    by (simp add: failing_task_def)
  have k6: "driver_unmount example_volume None 2 = (Returns (Inr False), 1)"
    by (simp add: driver_unmount_def example_defs)
  have a: "MountTask example_path example_volume failing_task None world0 =
       (Returns (Some (ExternalError ''task failed'')),
        \<lparr>held = {},
         calls = [CallLock ''mount/containers/c1'', CallMountVolume ''containers'' ''c1'',
                  CallUnlock ''mount/containers/c1'', CallTask ''/pools/pool0/containers/c1'',
                  CallLock ''umount/containers/c1'', CallUnmountVolume ''containers'' ''c1'',
                  CallUnlock ''umount/containers/c1''],
         MockBackend = False, ext = 0\<rparr>)"
    using MountTask_compensates_iff_our_mount
      [where task = failing_task and G = example_path, OF h1 h3 h4 h5 h6] h2
    unfolding ids by (simp add: world0_def)
  have b: "MountTask example_path example_volume failing_task None (world0\<lparr>ext := 1\<rparr>) =
       (Returns (Some (ExternalError ''task failed'')),
        \<lparr>held = {},
         calls = [CallLock ''mount/containers/c1'', CallMountVolume ''containers'' ''c1'',
                  CallUnlock ''mount/containers/c1'', CallTask ''/pools/pool0/containers/c1''],
         MockBackend = False, ext = 2\<rparr>)"
    using MountTask_compensates_iff_our_mount
      [where task = failing_task and G = example_path, OF k1 k3 k4 h5 k6] k2
    unfolding ids by (simp add: world0_def)
  from h1 h3 h4 h6 a k3 b show ?thesis
    by blast
qed

text \<open>
  Claim C4. When the driver's mount (or mount-snapshot) call returns an error, \<open>MountTask\<close>
  returns that error. The run records the lock, the mount call and the unlock and nothing
  else: no call of the task and no unmount. The outside world is as the mount call left it,
  and the whole result is the same for any other task.
\<close>

theorem MountTask_mount_failure:
  assumes "mountLockID v \<notin> held w"
    and "driver_mount v op (ext w) = (Returns (Inl e), s1)"
  shows "fst (MountTask G v task op w) = Returns (Some e)
         \<and> new_calls w (MountTask G v task op w)
             = [CallLock (mountLockID v), mount_call v, CallUnlock (mountLockID v)]
         \<and> filter is_task_call (new_calls w (MountTask G v task op w)) = []
         \<and> filter is_unmount_call (new_calls w (MountTask G v task op w)) = []
         \<and> ext (snd (MountTask G v task op w)) = s1
         \<and> held (snd (MountTask G v task op w)) = held w
         \<and> MountTask G v task' op w = MountTask G v task op w"
  by (simp add: MountTask_mount_error [OF assms] new_calls_def)

theorem MountTask_mount_failure_witness:
  "mountLockID failing_volume \<notin> held world0
   \<and> driver_mount failing_volume None (ext world0) = (Returns (Inl (ExternalError ''mount failed'')), 0)
   \<and> fst (MountTask example_path failing_volume ok_task None world0)
       = Returns (Some (ExternalError ''mount failed''))
   \<and> new_calls world0 (MountTask example_path failing_volume ok_task None world0)
       = [CallLock ''mount/containers/c1'', CallMountVolume ''containers'' ''c1'',
          CallUnlock ''mount/containers/c1'']"
proof -
  have h1: "mountLockID failing_volume \<notin> held world0"
    by (simp add: world0_def)
  have h2: "driver_mount failing_volume None (ext world0)
              = (Returns (Inl (ExternalError ''mount failed'')), 0)"
    by (simp add: driver_mount_def example_defs)
  have ids: "mountLockID failing_volume = ''mount/containers/c1''"
    "mount_call failing_volume = CallMountVolume ''containers'' ''c1''"
    by (simp_all add: mount_vocabulary example_defs)
  from MountTask_mount_failure [where task = ok_task and G = example_path, OF h1 h2] h1 h2
  show ?thesis
    unfolding ids by blast
qed

text \<open>
  Claim C3, as stated, at a concrete input: the driver's unmount runs and returns the error
  "device busy" after a task that returned no error, and \<open>MountTask\<close> returns no error; the
  world it leaves holds the record of the calls and nothing of the error.
\<close>

theorem MountTask_unmount_error_counterexample:
  "driver_unmount busy_volume None 1 = (Returns (Inl (ExternalError ''device busy'')), 1)
   \<and> MountTask example_path busy_volume ok_task None world0 =
       (Returns None,
        \<lparr>held = {},
         calls = [CallLock ''mount/containers/c1'', CallMountVolume ''containers'' ''c1'',
                  CallUnlock ''mount/containers/c1'', CallTask ''/pools/pool0/containers/c1'',
                  CallLock ''umount/containers/c1'', CallUnmountVolume ''containers'' ''c1'',
                  CallUnlock ''umount/containers/c1''],
         MockBackend = False, ext = 1\<rparr>)"
  by (simp add: MountTask_def driver_unmount_def example_defs run_defs)

text \<open>
  Claim C3, amended. When the compensating unmount runs and the driver's unmount call
  returns, with an error or without, the value \<open>MountTask\<close> returns is the value the task
  returned, and the result of the unmount call is discarded: the outcome and the world after
  the run do not depend on it.
\<close>

theorem MountTask_unmount_result_discarded:
  assumes "mountLockID v \<notin> held w" and "umountLockID v \<notin> held w"
    and "driver_mount v op (ext w) = (Returns (Inr True), s1)"
    and "task (MountPath G v) op s1 = (Returns r, s2)"
    and "driver_unmount v op s2 = (Returns ur, s3)"
  shows "MountTask G v task op w =
           (Returns r,
            w\<lparr>calls := calls w @ [CallLock (mountLockID v), mount_call v, CallUnlock (mountLockID v),
                                  CallTask (MountPath G v),
                                  CallLock (umountLockID v), unmount_call v, CallUnlock (umountLockID v)],
              ext := s3\<rparr>)"
  using MountTask_our_mount [where task = task and G = G, OF assms(1,2,3,4) _ assms(5)] by simp

theorem MountTask_unmount_result_discarded_witness:
  "mountLockID busy_volume \<notin> held world0 \<and> umountLockID busy_volume \<notin> held world0
   \<and> driver_mount busy_volume None (ext world0) = (Returns (Inr True), 1)
   \<and> failing_task (MountPath example_path busy_volume) None 1
       = (Returns (Some (ExternalError ''task failed'')), 1)
   \<and> driver_unmount busy_volume None 1 = (Returns (Inl (ExternalError ''device busy'')), 1)
   \<and> fst (MountTask example_path busy_volume failing_task None world0)
       = Returns (Some (ExternalError ''task failed''))"
proof -
  have h1: "mountLockID busy_volume \<notin> held world0"
    and h2: "umountLockID busy_volume \<notin> held world0"
    by (simp_all add: world0_def)
  have h3: "driver_mount busy_volume None (ext world0) = (Returns (Inr True), 1)"
    by (simp add: driver_mount_def example_defs)
  have h4: "failing_task (MountPath example_path busy_volume) None 1
              = (Returns (Some (ExternalError ''task failed'')), 1)"
    by (simp add: failing_task_def)
  have h5: "driver_unmount busy_volume None 1 = (Returns (Inl (ExternalError ''device busy'')), 1)"
    by (simp add: driver_unmount_def example_defs)
  from MountTask_unmount_result_discarded
    [where task = failing_task and G = example_path, OF h1 h2 h3 h4 h5] h1 h2 h3 h4 h5
  show ?thesis
    by simp
qed

text \<open>
  Claim C2, as stated, at a concrete input: the two lock identifiers of the example volume
  differ, and while another caller holds its unmount lock (is deciding to unmount it),
  \<open>MountTask\<close> takes the mount lock and calls the driver's mount.
\<close>

theorem mount_umount_exclusion_counterexample:
  "mountLockID example_volume \<noteq> umountLockID example_volume
   \<and> umountLockID example_volume \<in> held contended_world
   \<and> take 3 (new_calls contended_world
               (MountTask example_path example_volume ok_task None contended_world))
       = [CallLock ''mount/containers/c1'', CallMountVolume ''containers'' ''c1'',
          CallUnlock ''mount/containers/c1'']"
  by (simp add: MountTask_def new_calls_def example_defs run_defs)

text \<open>
  Claim C2, amended. The mount-decision section of \<open>MountTask\<close> is guarded by the lock
  \<open>mount/<type>/<name>\<close> and the unmount-decision section by the lock \<open>umount/<type>/<name>\<close>,
  and the two identifiers differ for every volume. Each section excludes itself: a caller
  waits, before any driver call, while the lock of the section is held. The sections do not
  exclude each other: with the mount lock free, the mount decision is taken whether or not
  another caller holds the unmount lock.
\<close>

theorem mount_and_umount_lock_sections:
  assumes "mountLockID v \<notin> held w"
    and "driver_mount v op (ext w) = (Returns (Inr True), s1)"
    and "task (MountPath G v) op s1 = (tout, s2)" and "tout \<noteq> Hangs"
  shows "mountLockID v \<noteq> umountLockID v
         \<and> take 4 (new_calls w (MountTask G v task op w))
             = [CallLock (mountLockID v), mount_call v, CallUnlock (mountLockID v),
                CallTask (MountPath G v)]
         \<and> (umountLockID v \<in> held w \<longrightarrow>
              fst (MountTask G v task op w) = Hangs
              \<and> drop 4 (new_calls w (MountTask G v task op w)) = [])
         \<and> (umountLockID v \<notin> held w \<longrightarrow>
              take 2 (drop 4 (new_calls w (MountTask G v task op w)))
                = [CallLock (umountLockID v), unmount_call v])
         \<and> (mountLockID v \<in> held w' \<longrightarrow> MountTask G v task op w' = (Hangs, w'))"
proof (cases "umountLockID v \<in> held w")
  case True
  then show ?thesis
    using MountTask_our_mount_blocked [where task = task and G = G, OF assms(1) True assms(2,3)]
    by (simp add: new_calls_def mount_umount_lock_ids_differ MountTask_mount_lock_held)
next
  case False
  obtain uout s3 where u: "driver_unmount v op s2 = (uout, s3)"
    by (cases "driver_unmount v op s2")
  show ?thesis
    using False MountTask_our_mount [where task = task and G = G, OF assms(1) False assms(2,3,4) u]
    by (cases uout)
      (simp_all add: new_calls_def mount_umount_lock_ids_differ MountTask_mount_lock_held)
qed

theorem mount_and_umount_lock_sections_witness:
  "mountLockID example_volume \<notin> held contended_world
   \<and> driver_mount example_volume None (ext contended_world) = (Returns (Inr True), 1)
   \<and> ok_task (MountPath example_path example_volume) None 1 = (Returns None, 1)
   \<and> umountLockID example_volume \<in> held contended_world
   \<and> fst (MountTask example_path example_volume ok_task None contended_world) = Hangs
   \<and> new_calls contended_world (MountTask example_path example_volume ok_task None contended_world)
       = [CallLock ''mount/containers/c1'', CallMountVolume ''containers'' ''c1'',
          CallUnlock ''mount/containers/c1'', CallTask ''/pools/pool0/containers/c1'']"
proof -
  have h1: "mountLockID example_volume \<notin> held contended_world"
    by (simp add: example_defs)
  have h2: "driver_mount example_volume None (ext contended_world) = (Returns (Inr True), 1)"
    by (simp add: driver_mount_def example_defs)
  have h3: "ok_task (MountPath example_path example_volume) None 1 = (Returns None, 1)"
    by (simp add: ok_task_def)
  have h4: "Returns None \<noteq> (Hangs :: error option outcome)"
    by simp
  have h5: "umountLockID example_volume \<in> held contended_world"
    by (simp add: example_defs)
  have ids: "mountLockID example_volume = ''mount/containers/c1''"
    "mount_call example_volume = CallMountVolume ''containers'' ''c1''"
    "MountPath example_path example_volume = ''/pools/pool0/containers/c1''"
    by (simp_all add: mount_vocabulary example_defs)
  let ?new = "new_calls contended_world
                (MountTask example_path example_volume ok_task None contended_world)"
  from mount_and_umount_lock_sections
    [where task = ok_task and G = example_path and w' = contended_world, OF h1 h2 h3 h4] h5
  have a: "take 4 ?new = [CallLock (mountLockID example_volume), mount_call example_volume,
                          CallUnlock (mountLockID example_volume),
                          CallTask (MountPath example_path example_volume)]"
    and b: "fst (MountTask example_path example_volume ok_task None contended_world) = Hangs"
    and c: "drop 4 ?new = []"
    by blast+
  have "?new = take 4 ?new @ drop 4 ?new"
    by simp
  with a c have "?new = [CallLock (mountLockID example_volume), mount_call example_volume,
                          CallUnlock (mountLockID example_volume),
                          CallTask (MountPath example_path example_volume)]"
    by simp
  with b h1 h2 h3 h5 show ?thesis
    unfolding ids by blast
qed

subsection \<open>Mount paths\<close>

text \<open>
  Claim C7. \<open>CreateMountPath\<close> first calls \<open>MkdirAll\<close> on the mount path with the permission
  bits 0711 (octal) and returns its error when it fails, without a permission change. When
  the directories were created it calls \<open>Chmod\<close> on the mount path with the bits 0100
  exactly when the volume type is neither custom nor image, and returns the error of that
  call when it fails; for a custom or an image volume no permission change is made and
  the path keeps the bits \<open>MkdirAll\<close> gave it.
\<close>

theorem CreateMountPath_permissions:
  assumes "MkdirAll os (MountPath G v) perm_0711 (ext w) = (Returns merr, s1)"
    and "Chmod os (MountPath G v) perm_0100 s1 = (Returns cerr, s2)"
  shows "perm_0711 = 457 \<and> perm_0100 = 64
         \<and> CreateMountPath G os v w =
             (if merr \<noteq> None then
                (Returns merr, w\<lparr>calls := calls w @ [CallMkdirAll (MountPath G v) perm_0711], ext := s1\<rparr>)
              else if volType v \<noteq> VolumeTypeCustom \<and> volType v \<noteq> VolumeTypeImage then
                (Returns cerr,
                 w\<lparr>calls := calls w @ [CallMkdirAll (MountPath G v) perm_0711,
                                       CallChmod (MountPath G v) perm_0100],
                   ext := s2\<rparr>)
              else
                (Returns None, w\<lparr>calls := calls w @ [CallMkdirAll (MountPath G v) perm_0711], ext := s1\<rparr>))
         \<and> (CallChmod (MountPath G v) perm_0100 \<in> set (new_calls w (CreateMountPath G os v w)))
             = (merr = None \<and> volType v \<noteq> VolumeTypeCustom \<and> volType v \<noteq> VolumeTypeImage)"
proof -
  have "perm_0711 = 457 \<and> perm_0100 = 64"
    by (simp add: perm_0711_def perm_0100_def)
  moreover have "perm_0711 \<noteq> perm_0100"
    by (simp add: perm_0711_def perm_0100_def)
  ultimately show ?thesis
    using assms
    by (cases merr; cases cerr)
      (simp_all add: CreateMountPath_def Let_def andThen_def invoke_def return_def new_calls_def)
qed

theorem CreateMountPath_permissions_witness:
  "MkdirAll map_os ''/pools/pool0/containers/c1'' perm_0711 (ext fs_world0)
     = (Returns None, [''/pools/pool0/containers/c1'' \<mapsto> 457])
   \<and> Chmod map_os ''/pools/pool0/containers/c1'' perm_0100 [''/pools/pool0/containers/c1'' \<mapsto> 457]
     = (Returns None, [''/pools/pool0/containers/c1'' \<mapsto> 64])
   \<and> CreateMountPath example_path map_os (fs_volume VolumeTypeContainer) fs_world0
     = (Returns None,
        fs_world0\<lparr>calls := [CallMkdirAll ''/pools/pool0/containers/c1'' 457,
                            CallChmod ''/pools/pool0/containers/c1'' 64],
                  ext := [''/pools/pool0/containers/c1'' \<mapsto> 64]\<rparr>)"
proof -
  have p: "MountPath example_path (fs_volume VolumeTypeContainer) = ''/pools/pool0/containers/c1''"
    by (simp add: MountPath_def example_path_def fs_volume_def VolumeTypeContainer_def)
  have h1: "MkdirAll map_os (MountPath example_path (fs_volume VolumeTypeContainer)) perm_0711
              (ext fs_world0) = (Returns None, [''/pools/pool0/containers/c1'' \<mapsto> 457])"
    unfolding p by (simp add: map_os_def fs_world0_def perm_0711_def)
  have h2: "Chmod map_os (MountPath example_path (fs_volume VolumeTypeContainer)) perm_0100
              [''/pools/pool0/containers/c1'' \<mapsto> 457]
            = (Returns None, [''/pools/pool0/containers/c1'' \<mapsto> 64])"
    unfolding p by (simp add: map_os_def perm_0100_def)
  have t: "volType (fs_volume VolumeTypeContainer) \<noteq> VolumeTypeCustom"
    "volType (fs_volume VolumeTypeContainer) \<noteq> VolumeTypeImage"
    by (simp_all add: fs_volume_def VolumeTypeContainer_def VolumeTypeCustom_def VolumeTypeImage_def)
  from CreateMountPath_permissions [OF h1 h2] t
  have "CreateMountPath example_path map_os (fs_volume VolumeTypeContainer) fs_world0
          = (Returns None,
             fs_world0\<lparr>calls := calls fs_world0 @
                           [CallMkdirAll (MountPath example_path (fs_volume VolumeTypeContainer)) perm_0711,
                            CallChmod (MountPath example_path (fs_volume VolumeTypeContainer)) perm_0100],
                       ext := [''/pools/pool0/containers/c1'' \<mapsto> 64]\<rparr>)"
    by simp
  then have "CreateMountPath example_path map_os (fs_volume VolumeTypeContainer) fs_world0
          = (Returns None,
             fs_world0\<lparr>calls := [CallMkdirAll ''/pools/pool0/containers/c1'' 457,
                                 CallChmod ''/pools/pool0/containers/c1'' 64],
                       ext := [''/pools/pool0/containers/c1'' \<mapsto> 64]\<rparr>)"
    unfolding p by (simp add: fs_world0_def perm_0711_def perm_0100_def)
  with h1 h2 show ?thesis
    unfolding p by blast
qed

subsection \<open>The ID-resolution callback\<close>






subsection \<open>Pool resolution\<close>

text \<open>
  Claim C5, as stated, at a concrete input: with the mock switch on and a catalog that does
  not know the instance, \<open>GetPoolByInstanceName\<close> makes the catalog lookup and returns its
  error instead of a substitute pool.
\<close>

theorem mock_GetPoolByInstanceName_counterexample:
  "MockBackend mock_world
   \<and> GetPoolByInstanceName example_pkg empty_cluster ''default'' ''c1'' mock_world
       = (Returns (Inl ErrNoSuchObject),
          \<lparr>held = {}, calls = [CallContainerPool ''default'' ''c1''], MockBackend = True, ext = 0\<rparr>)
   \<and> filter is_catalog_call
        (new_calls mock_world
           (GetPoolByInstanceName example_pkg empty_cluster ''default'' ''c1'' mock_world))
       = [CallContainerPool ''default'' ''c1'']"
  by (simp add: GetPoolByInstanceName_def mock_world_def empty_cluster_def andThen_def invoke_def
      return_def new_calls_def)

text \<open>
  Claim C5, amended. With the mock switch on, \<open>GetPoolByName\<close> returns the in-memory
  substitute pool for every pool name, and \<open>CreatePool\<close> for every descriptor that is not
  nil, and neither makes any call: no driver is loaded, no catalog is read, no disk is
  touched, and the world is unchanged. \<open>GetPoolByInstanceName\<close> first makes the catalog
  lookup \<open>ContainerPool\<close> of the instance: when the lookup returns a pool name, the result is
  the substitute pool of that name and the lookup is the only call; when it returns an
  error, the result is that error.
\<close>

theorem mock_resolution:
  assumes "MockBackend w"
  shows "GetPoolByName pk st nm w
           = (Returns (Inr (mockBackend nm [''driver'' \<mapsto> ''mock'', ''pool'' \<mapsto> nm])), w)
         \<and> CreatePool pk st poolID (Some d) op w
           = (Returns (Inr (mockBackend (Name d) [''driver'' \<mapsto> ''mock'', ''pool'' \<mapsto> Name d]),
                       Some (if Config d = None then d\<lparr>Config := Some Map.empty\<rparr> else d)), w)
         \<and> (\<forall>poolName s1. ContainerPool st projectName instanceName (ext w) = (Returns (Inr poolName), s1) \<longrightarrow>
               GetPoolByInstanceName pk st projectName instanceName w
                 = (Returns (Inr (mockBackend poolName [''driver'' \<mapsto> ''mock'', ''pool'' \<mapsto> poolName])),
                    w\<lparr>calls := calls w @ [CallContainerPool projectName instanceName], ext := s1\<rparr>))
         \<and> (\<forall>e s1. ContainerPool st projectName instanceName (ext w) = (Returns (Inl e), s1) \<longrightarrow>
               GetPoolByInstanceName pk st projectName instanceName w
                 = (Returns (Inl e),
                    w\<lparr>calls := calls w @ [CallContainerPool projectName instanceName], ext := s1\<rparr>))"
  using assms
  by (simp add: GetPoolByName_def CreatePool_def GetPoolByInstanceName_def andThen_def invoke_def
      return_def)

theorem mock_resolution_witness:
  "MockBackend mock_world
   \<and> GetPoolByName example_pkg one_pool_cluster ''pool0'' mock_world
       = (Returns (Inr (mockBackend ''pool0'' [''driver'' \<mapsto> ''mock'', ''pool'' \<mapsto> ''pool0''])), mock_world)
   \<and> ContainerPool one_pool_cluster ''default'' ''c1'' (ext mock_world) = (Returns (Inr ''pool0''), 0)
   \<and> GetPoolByInstanceName example_pkg one_pool_cluster ''default'' ''c1'' mock_world
       = (Returns (Inr (mockBackend ''pool0'' [''driver'' \<mapsto> ''mock'', ''pool'' \<mapsto> ''pool0''])),
          mock_world\<lparr>calls := [CallContainerPool ''default'' ''c1'']\<rparr>)"
proof -
  have h: "MockBackend mock_world"
    by (simp add: mock_world_def)
  have c: "ContainerPool one_pool_cluster ''default'' ''c1'' (ext mock_world) = (Returns (Inr ''pool0''), 0)"
    by (simp add: one_pool_cluster_def empty_cluster_def mock_world_def)
  have w: "mock_world\<lparr>calls := calls mock_world @ [CallContainerPool ''default'' ''c1''], ext := 0\<rparr>
             = mock_world\<lparr>calls := [CallContainerPool ''default'' ''c1'']\<rparr>"
    by (simp add: mock_world_def)
  from mock_resolution [OF h, of example_pkg one_pool_cluster "''pool0''" _ _ _ "''default''" "''c1''"] c h w
  show ?thesis
    by simp
qed

text \<open>
  Claim C10. For a descriptor that is not nil and whose config is nil, \<open>CreatePool\<close> replaces
  the config by the empty map and changes no other field. With the mock switch on, the
  caller finds the descriptor so changed next to the substitute pool. With the switch off,
  the first call is the driver load, and it already receives the empty map; when the load
  fails the caller finds the changed descriptor, and otherwise it is the changed
  descriptor that \<open>create\<close> receives.
\<close>

theorem CreatePool_defaults_config:
  assumes "Config d = None"
  shows "Config (d\<lparr>Config := Some Map.empty\<rparr>) = Some Map.empty
         \<and> Name (d\<lparr>Config := Some Map.empty\<rparr>) = Name d
         \<and> Driver (d\<lparr>Config := Some Map.empty\<rparr>) = Driver d
         \<and> StoragePool.more (d\<lparr>Config := Some Map.empty\<rparr>) = StoragePool.more d
         \<and> (MockBackend w \<longrightarrow>
              CreatePool pk st poolID (Some d) op w
                = (Returns (Inr (mockBackend (Name d) [''driver'' \<mapsto> ''mock'', ''pool'' \<mapsto> Name d]),
                            Some (d\<lparr>Config := Some Map.empty\<rparr>)), w))
         \<and> (\<not> MockBackend w \<longrightarrow>
              take 1 (new_calls w (CreatePool pk st poolID (Some d) op w))
                = [CallLoad (Driver d) (Name d) (Some Map.empty)])
         \<and> (\<forall>e s1. \<not> MockBackend w
                \<and> Load pk (Driver d) (Name d) (Some Map.empty) [''driver'' \<mapsto> Driver d, ''pool'' \<mapsto> Name d]
                     (volIDFuncMake pk st poolID) (ext w) = (Returns (Inl e), s1) \<longrightarrow>
              fst (CreatePool pk st poolID (Some d) op w)
                = Returns (Inl e, Some (d\<lparr>Config := Some Map.empty\<rparr>)))
         \<and> (\<forall>drv s1 cerr d' s2. \<not> MockBackend w
                \<and> Load pk (Driver d) (Name d) (Some Map.empty) [''driver'' \<mapsto> Driver d, ''pool'' \<mapsto> Name d]
                     (volIDFuncMake pk st poolID) (ext w) = (Returns (Inr drv), s1)
                \<and> create pk (lxdBackend drv poolID (Name d) [''driver'' \<mapsto> Driver d, ''pool'' \<mapsto> Name d])
                     (d\<lparr>Config := Some Map.empty\<rparr>) op s1 = (Returns (cerr, d'), s2) \<longrightarrow>
              CreatePool pk st poolID (Some d) op w
                = (Returns (case cerr of
                              Some e \<Rightarrow> Inl e
                            | None \<Rightarrow> Inr (lxdBackend drv poolID (Name d)
                                              [''driver'' \<mapsto> Driver d, ''pool'' \<mapsto> Name d]),
                            Some d'),
                   w\<lparr>calls := calls w @ [CallLoad (Driver d) (Name d) (Some Map.empty),
                                         CallCreate (Name d)],
                     ext := s2\<rparr>))"
proof -
  have load: "\<not> MockBackend w \<Longrightarrow>
      take 1 (new_calls w (CreatePool pk st poolID (Some d) op w))
        = [CallLoad (Driver d) (Name d) (Some Map.empty)]"
    using assms
    by (simp add: CreatePool_def Let_def andThen_def invoke_def return_def new_calls_def
        split: prod.splits outcome.splits sum.splits option.splits)
  show ?thesis
    using assms load
    by (auto simp add: CreatePool_def Let_def andThen_def invoke_def return_def
        split: option.splits)
qed

theorem CreatePool_defaults_config_witness:
  "Config example_descriptor = None
   \<and> MockBackend mock_world
   \<and> CreatePool example_pkg empty_cluster 7 (Some example_descriptor) None mock_world
       = (Returns (Inr (mockBackend ''pool0'' [''driver'' \<mapsto> ''mock'', ''pool'' \<mapsto> ''pool0'']),
                   Some \<lparr>Name = ''pool0'', Driver = ''dir'', Config = Some Map.empty\<rparr>), mock_world)
   \<and> \<not> MockBackend world0
   \<and> take 1 (new_calls world0 (CreatePool example_pkg empty_cluster 7 (Some example_descriptor) None world0))
       = [CallLoad ''dir'' ''pool0'' (Some Map.empty)]"
proof -
  have h: "Config example_descriptor = None"
    by (simp add: example_descriptor_def)
  have m: "MockBackend mock_world" "\<not> MockBackend world0"
    by (simp_all add: mock_world_def world0_def)
  have d: "example_descriptor\<lparr>Config := Some Map.empty\<rparr>
             = \<lparr>Name = ''pool0'', Driver = ''dir'', Config = Some Map.empty\<rparr>"
    "Name example_descriptor = ''pool0''" "Driver example_descriptor = ''dir''"
    by (simp_all add: example_descriptor_def)
  from CreatePool_defaults_config [OF h, of mock_world example_pkg empty_cluster 7 None]
    CreatePool_defaults_config [OF h, of world0 example_pkg empty_cluster 7 None] h m
  show ?thesis
    unfolding d by blast
qed

end
